theory Spec2Isabelle
  imports Main "HOL-Library.Mapping" "HOL-Library.AList_Mapping" "HOL-Library.Word"
begin

unbundle bit_operations_syntax

section \<open>The request, as package net/http hands it to a handler\<close>

text \<open>
  \<^verbatim>\<open>url.Values\<close> and \<^verbatim>\<open>http.Header\<close> are both \<^verbatim>\<open>map[string][]string\<close>.
  Indexing a Go map at a missing key yields the nil slice, whose length is 0.
\<close>

type_synonym Values = "(string, string list) mapping"

definition Values_index :: "Values \<Rightarrow> string \<Rightarrow> string list" where
  "Values_index m k = (case Mapping.lookup m k of None \<Rightarrow> [] | Some vs \<Rightarrow> vs)"

text \<open>
  \<^verbatim>\<open>Header.Get(key)\<close>: \<^verbatim>\<open>v := h[CanonicalMIMEHeaderKey(key)]; if len(v) == 0 { return "" };
  return v[0]\<close>. The only key looked up here is \<^verbatim>\<open>jwtAuthKey\<close>, which is already in canonical form.
\<close>

definition Header_Get :: "Values \<Rightarrow> string \<Rightarrow> string" where
  "Header_Get h key = (case Values_index h key of [] \<Rightarrow> [] | v # _ \<Rightarrow> v)"

text \<open>
  The request context: \<^verbatim>\<open>context.WithValue\<close> wraps its parent, and \<^verbatim>\<open>Value\<close> walks the
  chain from the innermost binding outwards. Keys are compared by Go's \<^verbatim>\<open>==\<close>; \<^verbatim>\<open>claimsKey{}\<close>
  is the one value of the package's unexported key type. A stored value either implements
  \<^verbatim>\<open>Claims\<close>, or is something else, or is the nil interface. \<open>Value\<close> returns \<open>None\<close>
  (Go: nil) for a key that no binding of the chain carries.
\<close>

datatype Key = claimsKey | OtherKey string

datatype 'c Any = ClaimsVal 'c | OtherVal string | NilVal

datatype 'c Context = Background | WithValue "'c Context" Key "'c Any"

fun Value :: "'c Context \<Rightarrow> Key \<Rightarrow> 'c Any option" where
  "Value Background k = None"
| "Value (WithValue parent k v) k' = (if k' = k then Some v else Value parent k')"

text \<open>
  The fields of \<^verbatim>\<open>*http.Request\<close> that the package reads and writes. The two parsers of
  the standard library are carried as their results on this request:
  \<open>URL_ParseQuery\<close> is \<^verbatim>\<open>url.ParseQuery(r.URL.RawQuery)\<close> (the values that parsed, and the
  first error if a pair was malformed), \<open>Body_parsePostForm\<close> is what \<^verbatim>\<open>parsePostForm(r)\<close>
  returns when it reads the body (nil values when the body is not urlencoded form data).
  \<open>Form\<close> and \<open>PostForm\<close> are nil (\<open>None\<close>) until something parses the form.
  \<^verbatim>\<open>r.URL\<close> is non-nil on every request a server delivers.
\<close>

record 'c Request =
  Method :: string
  Header :: Values
  URL_ParseQuery :: "Values \<times> string option"
  Body_parsePostForm :: "Values option \<times> string option"
  Form :: "Values option"
  PostForm :: "Values option"
  ctx :: "'c Context"

text \<open>\<^verbatim>\<open>r.URL.Query()\<close>: \<^verbatim>\<open>v, _ := ParseQuery(u.RawQuery); return v\<close>.\<close>

definition URL_Query :: "'c Request \<Rightarrow> Values" where
  "URL_Query r = fst (URL_ParseQuery r)"

text \<open>
  \<^verbatim>\<open>copyValues(dst, src)\<close>: \<^verbatim>\<open>for k, vs := range src { dst[k] = append(dst[k], vs...) }\<close>.
  A key of \<open>src\<close> alone gets the values of \<open>src\<close>, a key of both gets those of \<open>dst\<close> followed
  by those of \<open>src\<close>, a key of \<open>dst\<close> alone is left as it is.
\<close>

definition copyValues :: "Values \<Rightarrow> Values \<Rightarrow> Values" where
  "copyValues dst src = Mapping.combine (\<lambda>dvs vs. dvs @ vs) dst src"

text \<open>
  \<^verbatim>\<open>r.ParseForm()\<close>. The body is parsed only when \<^verbatim>\<open>r.PostForm\<close> is nil and the method is
  POST, PUT or PATCH; the query is parsed only when \<^verbatim>\<open>r.Form\<close> is nil; the body's values
  come first in \<^verbatim>\<open>r.Form\<close>. Both fields are set also when an error is returned, and the
  body's error is reported before the query's. Returns the error and the updated request.
\<close>

definition ParseForm :: "'c Request \<Rightarrow> string option \<times> 'c Request" where
  "ParseForm r =
     (let (r1, err) =
        (case PostForm r of
           Some p \<Rightarrow> (r, None)
         | None \<Rightarrow>
             (let (vs, e) =
                (if Method r = ''POST'' \<or> Method r = ''PUT'' \<or> Method r = ''PATCH''
                 then Body_parsePostForm r else (None, None))
              in (r\<lparr>PostForm := Some (case vs of None \<Rightarrow> Mapping.empty | Some p \<Rightarrow> p)\<rparr>, e)))
      in case Form r1 of
           Some f \<Rightarrow> (err, r1)
         | None \<Rightarrow>
             (let pf = (case PostForm r1 of None \<Rightarrow> Mapping.empty | Some p \<Rightarrow> p);
                  f0 = (if \<not> Mapping.is_empty pf then Some (copyValues Mapping.empty pf) else None);
                  (newValues, e) = URL_ParseQuery r1;
                  err' = (if err = None then e else err)
              in (err', r1\<lparr>Form := Some (case f0 of None \<Rightarrow> newValues
                                          | Some f \<Rightarrow> copyValues f newValues)\<rparr>)))"

text \<open>
  \<^verbatim>\<open>r.FormValue(key)\<close> on a request whose \<^verbatim>\<open>Form\<close> is set: the first value of the key in
  \<^verbatim>\<open>r.Form\<close>, or the empty string. (With \<^verbatim>\<open>r.Form\<close> nil the library would parse first;
  \<open>Bearer\<close> only calls it after \<open>ParseForm\<close>, which always sets the field.)
\<close>

definition FormValue :: "'c Request \<Rightarrow> string \<Rightarrow> string" where
  "FormValue r key =
     (case Values_index (case Form r of None \<Rightarrow> Mapping.empty | Some f \<Rightarrow> f) key of
        [] \<Rightarrow> [] | v # _ \<Rightarrow> v)"

text \<open>\<^verbatim>\<open>r.PostFormValue(key)\<close> on a parsed request, for downstream readers.\<close>

definition PostFormValue :: "'c Request \<Rightarrow> string \<Rightarrow> string" where
  "PostFormValue r key =
     (case Values_index (case PostForm r of None \<Rightarrow> Mapping.empty | Some f \<Rightarrow> f) key of
        [] \<Rightarrow> [] | v # _ \<Rightarrow> v)"

section \<open>The token locator\<close>

definition jwtAuthKey :: string where
  "jwtAuthKey = ''Authorization''"

text \<open>The loop of \<open>Bearer\<close> over the query parameter's values: the first non-empty one.\<close>

fun Bearer_range :: "string list \<Rightarrow> string option" where
  "Bearer_range [] = None"
| "Bearer_range (bearer # rest) = (if bearer \<noteq> [] then Some bearer else Bearer_range rest)"

text \<open>
  \<open>Bearer\<close> returns the token, the found flag and the request as it leaves it (parsing the
  form sets \<^verbatim>\<open>r.Form\<close> and \<^verbatim>\<open>r.PostForm\<close>; \<^verbatim>\<open>delete\<close> on a nil map does nothing).
\<close>

definition Bearer :: "'c Request \<Rightarrow> (string \<times> bool) \<times> 'c Request" where
  "Bearer r =
     (let bearer = Header_Get (Header r) jwtAuthKey in
      if bearer \<noteq> [] then ((bearer, True), r)
      else
        (case Bearer_range (Values_index (URL_Query r) jwtAuthKey) of
           Some b \<Rightarrow> ((b, True), r)
         | None \<Rightarrow>
             (case ParseForm r of
                (Some err, r1) \<Rightarrow> (([], False), r1)
              | (None, r1) \<Rightarrow>
                  (let bearer = FormValue r1 jwtAuthKey in
                   if bearer \<noteq> []
                   then ((bearer, True),
                         r1\<lparr>PostForm := map_option (Mapping.delete jwtAuthKey) (PostForm r1)\<rparr>)
                   else (([], False), r1)))))"

section \<open>Package jwt-go, as far as the middleware calls it\<close>

text \<open>
  The middleware imports \<^verbatim>\<open>github.com/dgrijalva/jwt-go\<close> and calls \<^verbatim>\<open>jwt.ParseWithClaims\<close>
  with a key function of its own. The parser's control flow (\<^verbatim>\<open>parser.go\<close>, \<^verbatim>\<open>errors.go\<close>,
  \<^verbatim>\<open>signing_method.go\<close> of the library) is written out below; base64 and JSON decoding,
  the claims type's \<^verbatim>\<open>Valid()\<close> and the signature check are parameters.
\<close>

text \<open>
  \<^verbatim>\<open>ValidationError\<close>: an inner error (kept as its message), the bit field
  \<^verbatim>\<open>Errors uint32\<close>, and a text.
\<close>

record ValidationError =
  Inner :: "string option"
  Errors :: "32 word"
  text' :: string

definition ValidationErrorMalformed :: "32 word" where
  "ValidationErrorMalformed = push_bit 0 1"

definition ValidationErrorUnverifiable :: "32 word" where
  "ValidationErrorUnverifiable = push_bit 1 1"

definition ValidationErrorSignatureInvalid :: "32 word" where
  "ValidationErrorSignatureInvalid = push_bit 2 1"

definition ValidationErrorExpired :: "32 word" where
  "ValidationErrorExpired = push_bit 4 1"

definition ValidationErrorClaimsInvalid :: "32 word" where
  "ValidationErrorClaimsInvalid = push_bit 9 1"

definition NewValidationError :: "string \<Rightarrow> 32 word \<Rightarrow> ValidationError" where
  "NewValidationError errorText errorFlags =
     \<lparr>Inner = None, Errors = errorFlags, text' = errorText\<rparr>"

text \<open>\<^verbatim>\<open>func (e ValidationError) Error() string\<close>.\<close>

definition ValidationError_Error :: "ValidationError \<Rightarrow> string" where
  "ValidationError_Error e =
     (case Inner e of
        Some m \<Rightarrow> m
      | None \<Rightarrow> if text' e \<noteq> [] then text' e else ''token is invalid'')"

text \<open>\<^verbatim>\<open>func (e *ValidationError) valid() bool { return e.Errors == 0 }\<close>.\<close>

definition ValidationError_valid :: "ValidationError \<Rightarrow> bool" where
  "ValidationError_valid e = (Errors e = 0)"

text \<open>
  A Go \<^verbatim>\<open>error\<close> as the parser tells them apart: a \<^verbatim>\<open>*ValidationError\<close>, or any other
  error (kept as its message).
\<close>

datatype error = ValidationErr ValidationError | PlainError string

fun error_Error :: "error \<Rightarrow> string" where
  "error_Error (ValidationErr e) = ValidationError_Error e"
| "error_Error (PlainError m) = m"

text \<open>
  The signing methods the library registers, by Go type, and \<^verbatim>\<open>GetSigningMethod\<close> on the
  registry as the library's \<^verbatim>\<open>init\<close> functions fill it.
\<close>

datatype SigningMethod =
    SigningMethodHMAC string
  | SigningMethodRSA string
  | SigningMethodRSAPSS string
  | SigningMethodECDSA string
  | signingMethodNone

definition GetSigningMethod :: "string \<Rightarrow> SigningMethod option" where
  "GetSigningMethod alg =
     (if alg \<in> set [''HS256'', ''HS384'', ''HS512''] then Some (SigningMethodHMAC alg)
      else if alg \<in> set [''RS256'', ''RS384'', ''RS512''] then Some (SigningMethodRSA alg)
      else if alg \<in> set [''PS256'', ''PS384'', ''PS512''] then Some (SigningMethodRSAPSS alg)
      else if alg \<in> set [''ES256'', ''ES384'', ''ES512''] then Some (SigningMethodECDSA alg)
      else if alg = ''none'' then Some signingMethodNone
      else None)"

text \<open>
  A value of the decoded token header (\<^verbatim>\<open>map[string]interface{}\<close>): a JSON string, or any
  other JSON value, kept as \<^verbatim>\<open>%v\<close> prints it.
\<close>

datatype HeaderVal = HString string | HOther string

text \<open>\<^verbatim>\<open>%v\<close> of \<^verbatim>\<open>token.Header["alg"]\<close>; a missing key is the nil interface.\<close>

fun fmt_v :: "HeaderVal option \<Rightarrow> string" where
  "fmt_v None = ''<nil>''"
| "fmt_v (Some (HString s)) = s"
| "fmt_v (Some (HOther s)) = s"

record 'c Token =
  Raw :: string
  Token_Method :: "SigningMethod option"
  Token_Header :: "string \<rightharpoonup> HeaderVal"
  Claims :: "'c option"
  Signature :: string
  Valid :: bool

text \<open>
  What the parser calls and this development does not look into. Each Go function returning
  \<^verbatim>\<open>(value, error)\<close> is a function into a sum, \<open>Inl\<close> carrying the error's message.
  \<^item> \<open>DecodeSegment\<close>: base64url decoding of one segment;
  \<^item> \<open>json_Unmarshal_Header\<close>: \<^verbatim>\<open>json.Unmarshal(headerBytes, &token.Header)\<close>;
  \<^item> \<open>json_Decode_Claims\<close>: decoding the payload into the receiver that the factory made;
  \<^item> \<open>Claims_Valid\<close>: the claims type's own \<^verbatim>\<open>Valid() error\<close>;
  \<^item> \<open>Method_Verify\<close>: \<^verbatim>\<open>token.Method.Verify(signingString, signature, key)\<close>.
\<close>

record 'c jwt_env =
  DecodeSegment :: "string \<Rightarrow> string + string"
  json_Unmarshal_Header :: "string \<Rightarrow> string + (string \<rightharpoonup> HeaderVal)"
  json_Decode_Claims :: "string \<Rightarrow> 'c \<Rightarrow> string + 'c"
  Claims_Valid :: "'c \<Rightarrow> error option"
  Method_Verify :: "SigningMethod \<Rightarrow> string \<Rightarrow> string \<Rightarrow> string \<Rightarrow> string option"

text \<open>\<^verbatim>\<open>strings.Split(tokenString, ".")\<close>: one part more than there are dots.\<close>

fun Split_dot :: "string \<Rightarrow> string list" where
  "Split_dot [] = [[]]"
| "Split_dot (c # cs) =
     (if c = CHR ''.'' then [] # Split_dot cs
      else (case Split_dot cs of [] \<Rightarrow> [[c]] | p # ps \<Rightarrow> (c # p) # ps))"

text \<open>
  \<^verbatim>\<open>strings.ToLower\<close> and \<^verbatim>\<open>strings.HasPrefix\<close>, for the library's test whether the
  token starts with \<^verbatim>\<open>bearer \<close>: only ASCII letters lower to the bytes of that prefix.
\<close>

definition ToLower_char :: "char \<Rightarrow> char" where
  "ToLower_char c =
     (let n = (of_char c :: nat) in if 65 \<le> n \<and> n \<le> 90 then char_of (n + 32) else c)"

definition ToLower :: "string \<Rightarrow> string" where
  "ToLower s = map ToLower_char s"

definition HasPrefix :: "string \<Rightarrow> string \<Rightarrow> bool" where
  "HasPrefix s p = (take (length p) s = p)"

text \<open>
  \<^verbatim>\<open>Parser.ParseUnverified\<close>. Go returns \<^verbatim>\<open>(token, parts, err)\<close>; here \<open>Inl\<close> is a
  return with an error (the token is nil when the segment count is wrong) and \<open>Inr\<close> a
  return without.
\<close>

definition ParseUnverified ::
  "'c jwt_env \<Rightarrow> string \<Rightarrow> 'c \<Rightarrow> ('c Token option \<times> ValidationError) + ('c Token \<times> string list)"
where
  "ParseUnverified env tokenString claims =
     (case Split_dot tokenString of
        [p0, p1, p2] \<Rightarrow>
          (let token = \<lparr>Raw = tokenString, Token_Method = None, Token_Header = Map.empty,
                        Claims = None, Signature = [], Valid = False\<rparr>
           in case DecodeSegment env p0 of
                Inl err \<Rightarrow>
                  if HasPrefix (ToLower tokenString) ''bearer ''
                  then Inl (Some token,
                            NewValidationError
                              (''tokenstring should not contain '' @ [CHR 0x27] @ ''bearer ''
                                 @ [CHR 0x27])
                              ValidationErrorMalformed)
                  else Inl (Some token,
                            \<lparr>Inner = Some err, Errors = ValidationErrorMalformed, text' = []\<rparr>)
              | Inr headerBytes \<Rightarrow>
                  (case json_Unmarshal_Header env headerBytes of
                     Inl err \<Rightarrow>
                       Inl (Some token,
                            \<lparr>Inner = Some err, Errors = ValidationErrorMalformed, text' = []\<rparr>)
                   | Inr hdr \<Rightarrow>
                       (let token = token\<lparr>Token_Header := hdr, Claims := Some claims\<rparr>
                        in case DecodeSegment env p1 of
                             Inl err \<Rightarrow>
                               Inl (Some token,
                                    \<lparr>Inner = Some err, Errors = ValidationErrorMalformed,
                                     text' = []\<rparr>)
                           | Inr claimBytes \<Rightarrow>
                               (case json_Decode_Claims env claimBytes claims of
                                  Inl err \<Rightarrow>
                                    Inl (Some token,
                                         \<lparr>Inner = Some err, Errors = ValidationErrorMalformed,
                                          text' = []\<rparr>)
                                | Inr c \<Rightarrow>
                                    (let token = token\<lparr>Claims := Some c\<rparr>
                                     in case hdr ''alg'' of
                                          Some (HString method) \<Rightarrow>
                                            (case GetSigningMethod method of
                                               None \<Rightarrow>
                                                 Inl (Some token,
                                                      NewValidationError
                                                        ''signing method (alg) is unavailable.''
                                                        ValidationErrorUnverifiable)
                                             | Some m \<Rightarrow>
                                                 Inr (token\<lparr>Token_Method := Some m\<rparr>,
                                                      [p0, p1, p2]))
                                        | _ \<Rightarrow>
                                            Inl (Some token,
                                                 NewValidationError
                                                   ''signing method (alg) is unspecified.''
                                                   ValidationErrorUnverifiable))))))
      | parts \<Rightarrow>
          Inl (None,
               NewValidationError ''token contains an invalid number of segments''
                 ValidationErrorMalformed))"

text \<open>
  \<^verbatim>\<open>Parser.ParseWithClaims\<close> of the default parser (no \<^verbatim>\<open>ValidMethods\<close>, claims validation
  on), which \<^verbatim>\<open>jwt.ParseWithClaims\<close> calls. After \<^verbatim>\<open>ParseUnverified\<close> and the key function,
  the library reads:
  \<^verbatim>\<open>
  vErr := &ValidationError{}
  if !p.SkipClaimsValidation {
      if err := token.Claims.Valid(); err != nil {
          if e, ok := err.(*ValidationError); !ok {
              vErr = &ValidationError{Inner: err, Errors: ValidationErrorClaimsInvalid}
          } else {
              vErr = e
          }
      }
  }
  token.Signature = parts[2]
  if err = token.Method.Verify(strings.Join(parts[0:2], "."), token.Signature, key); err != nil {
      vErr.Inner = err
      vErr.Errors |= ValidationErrorSignatureInvalid
  }
  if vErr.valid() {
      token.Valid = true
      return token, nil
  }
  return token, vErr
  \<close>
  The claims are validated before the signature is checked, both failures are collected in
  one \<^verbatim>\<open>ValidationError\<close>, and the token is marked valid only when no flag is set: the
  function returns a nil error exactly with \<^verbatim>\<open>token.Valid = true\<close>. The result \<open>None\<close>
  stands for a nil dereference (calling \<^verbatim>\<open>Valid()\<close> on nil claims, \<^verbatim>\<open>Verify\<close> on a nil
  method), which \<open>ParseUnverified\<close> rules out.
\<close>

definition ParseWithClaims ::
  "'c jwt_env \<Rightarrow> string \<Rightarrow> 'c \<Rightarrow> ('c Token \<Rightarrow> error + string)
     \<Rightarrow> ('c Token option \<times> ValidationError option) option"
where
  "ParseWithClaims env tokenString claims keyFunc =
     (case ParseUnverified env tokenString claims of
        Inl (token, err) \<Rightarrow> Some (token, Some err)
      | Inr (token, parts) \<Rightarrow>
          (case keyFunc token of
             Inl (ValidationErr ve) \<Rightarrow> Some (Some token, Some ve)
           | Inl (PlainError m) \<Rightarrow>
               Some (Some token,
                     Some \<lparr>Inner = Some m, Errors = ValidationErrorUnverifiable, text' = []\<rparr>)
           | Inr key \<Rightarrow>
               (case (Claims token, Token_Method token, parts) of
                  (Some c, Some method, [p0, p1, p2]) \<Rightarrow>
                    (let vErr =
                       (case Claims_Valid env c of
                          None \<Rightarrow> \<lparr>Inner = None, Errors = 0, text' = []\<rparr>
                        | Some (ValidationErr e) \<Rightarrow> e
                        | Some (PlainError m) \<Rightarrow>
                            \<lparr>Inner = Some m, Errors = ValidationErrorClaimsInvalid, text' = []\<rparr>);
                         token = token\<lparr>Signature := p2\<rparr>;
                         vErr =
                           (case Method_Verify env method (p0 @ ''.'' @ p1) (Signature token) key of
                              Some m \<Rightarrow>
                                vErr\<lparr>Inner := Some m,
                                     Errors := Errors vErr OR ValidationErrorSignatureInvalid\<rparr>
                            | None \<Rightarrow> vErr)
                     in if ValidationError_valid vErr
                        then Some (Some (token\<lparr>Valid := True\<rparr>), None)
                        else Some (Some token, Some vErr))
                | _ \<Rightarrow> None)))"

section \<open>The authentication middleware JwtHS256\<close>

definition StatusUnauthorized :: nat where
  "StatusUnauthorized = 401"

definition StatusForbidden :: nat where
  "StatusForbidden = 403"

text \<open>
  What the handler does with the request: it replies through \<^verbatim>\<open>http.Error(w, msg, code)\<close>
  (kept as the message and the status code handed to it; the library writes the message
  followed by a newline), or it calls \<^verbatim>\<open>next.ServeHTTP\<close> with a request, or it
  dereferences nil. The handler does one of the three, so an outcome \<open>http_Error\<close> says that
  the next handler was not called.
\<close>

datatype 'c Outcome = http_Error string nat | next_ServeHTTP "'c Request" | panic

text \<open>The key function that \<open>JwtHS256\<close> hands to the parser (lines 35 to 41 of the source).\<close>

definition JwtHS256_keyFunc :: "string \<Rightarrow> 'c Token \<Rightarrow> error + string" where
  "JwtHS256_keyFunc secret token =
     (case Token_Method token of
        Some (SigningMethodHMAC alg) \<Rightarrow> Inr secret
      | _ \<Rightarrow>
          Inl (PlainError (''unexpected signing method: '' @ fmt_v (Token_Header token ''alg''))))"

text \<open>
  The handler that \<^verbatim>\<open>JwtHS256(secret, cf)(next)\<close> returns, run on one request: the outcome,
  and the request object as the handler leaves it. \<^verbatim>\<open>r.WithContext\<close> copies the request
  shallowly, so the next handler sees the form fields as \<open>Bearer\<close> left them.
\<close>

definition JwtHS256 ::
  "'c jwt_env \<Rightarrow> string \<Rightarrow> (unit \<Rightarrow> 'c) \<Rightarrow> 'c Request \<Rightarrow> 'c Outcome \<times> 'c Request"
where
  "JwtHS256 env secret cf r =
     (case Bearer r of
        ((bearer, ok), r1) \<Rightarrow>
          if \<not> ok then (http_Error ''no JSON web token in request'' StatusUnauthorized, r1)
          else
            (case ParseWithClaims env bearer (cf ()) (JwtHS256_keyFunc secret) of
               None \<Rightarrow> (panic, r1)
             | Some (token, Some err) \<Rightarrow>
                 (http_Error (ValidationError_Error err) StatusForbidden, r1)
             | Some (None, None) \<Rightarrow> (panic, r1)
             | Some (Some token, None) \<Rightarrow>
                 if \<not> Valid token then (http_Error ''token is invalid'' StatusForbidden, r1)
                 else
                   (next_ServeHTTP
                      (r1\<lparr>ctx := WithValue (ctx r1) claimsKey
                                    (case Claims token of None \<Rightarrow> NilVal
                                     | Some c \<Rightarrow> ClaimsVal c)\<rparr>),
                    r1)))"

text \<open>
  \<^verbatim>\<open>GetClaimsFromContext\<close>: \<^verbatim>\<open>claims, _ := ctx.Value(claimsKey{}).(Claims)\<close>. The result
  \<open>None\<close> is the zero value of the interface type \<^verbatim>\<open>Claims\<close>, nil.
\<close>

definition GetClaimsFromContext :: "'c Context \<Rightarrow> 'c option" where
  "GetClaimsFromContext c =
     (case Value c claimsKey of
        Some (ClaimsVal claims) \<Rightarrow> Some claims
      | _ \<Rightarrow> None)"

section \<open>A small instance, for concrete runs\<close>

text \<open>
  Claims are a single string here. A segment decodes to itself unless it is \<open>!\<close>, the header
  segment is read as the algorithm's name, the claims \<open>expired\<close> fail their validity check
  the way the library's standard claims report an expired token, and a signature verifies
  when it repeats the key.
\<close>

definition ex_env :: "string jwt_env" where
  "ex_env =
     \<lparr>DecodeSegment =
        (\<lambda>s. if s = ''!'' then Inl ''illegal base64 data at input byte 0'' else Inr s),
      json_Unmarshal_Header = (\<lambda>b. Inr [''alg'' \<mapsto> HString b]),
      json_Decode_Claims = (\<lambda>b c. Inr b),
      Claims_Valid =
        (\<lambda>c. if c = ''expired''
             then Some (ValidationErr \<lparr>Inner = Some ''token is expired by 1h0m0s'',
                                       Errors = ValidationErrorExpired, text' = []\<rparr>)
             else None),
      Method_Verify =
        (\<lambda>m signingString signature key.
           if signature = key then None else Some ''signature is invalid'')\<rparr>"

definition ex_cf :: "unit \<Rightarrow> string" where
  "ex_cf u = []"

definition ex_request :: "string Request" where
  "ex_request =
     \<lparr>Method = ''GET'', Header = Mapping.empty, URL_ParseQuery = (Mapping.empty, None),
      Body_parsePostForm = (None, None), Form = None, PostForm = None, ctx = Background\<rparr>"

definition ex_header_request :: "string \<Rightarrow> string Request" where
  "ex_header_request tok = ex_request\<lparr>Header := Mapping.of_alist [(jwtAuthKey, [tok])]\<rparr>"

definition ex_query_request :: "string list \<Rightarrow> string Request" where
  "ex_query_request toks = ex_request\<lparr>URL_ParseQuery := (Mapping.of_alist [(jwtAuthKey, toks)], None)\<rparr>"

definition ex_form_request :: "string \<Rightarrow> string Request" where
  "ex_form_request tok =
     ex_request\<lparr>Method := ''POST'',
                Body_parsePostForm :=
                  (Some (Mapping.of_alist [(jwtAuthKey, [tok]), (''page'', [''2''])]), None)\<rparr>"

definition ex_all_request :: "string Request" where
  "ex_all_request =
     ex_request\<lparr>Method := ''POST'', Header := Mapping.of_alist [(jwtAuthKey, [''in.the.header''])],
                URL_ParseQuery := (Mapping.of_alist [(jwtAuthKey, [''in.the.query''])], None),
                Body_parsePostForm := (Some (Mapping.of_alist [(jwtAuthKey, [''in.the.form''])]), None)\<rparr>"

definition ex_bad_body_request :: "string Request" where
  "ex_bad_body_request =
     ex_request\<lparr>Method := ''POST'',
                Body_parsePostForm :=
                  (Some (Mapping.of_alist [(jwtAuthKey, [''in.the.form''])]),
                   Some ''invalid semicolon separator in query'')\<rparr>"

section \<open>Lemmas on the request's maps and on form parsing\<close>

lemma Values_index_empty: "Values_index Mapping.empty k = []"
  by (simp add: Values_index_def)

lemma Values_index_copyValues:
  "Values_index (copyValues dst src) k = Values_index dst k @ Values_index src k"
  by (simp add: Values_index_def copyValues_def lookup_combine combine_options_def
      split: option.splits)

lemma Values_index_is_empty: "Mapping.is_empty m \<Longrightarrow> Values_index m k = []"
  by (simp add: Values_index_def Mapping.is_empty_def keys_is_none_rep Option.is_none_def
      split: option.splits) (metis empty_iff keys_dom_lookup domI)

lemma Values_index_delete:
  "Values_index (Mapping.delete k m) k' = (if k' = k then [] else Values_index m k')"
  by (simp add: Values_index_def lookup_delete)

lemma ParseForm_PostForm:
  "PostForm (snd (ParseForm r)) =
     Some (case PostForm r of Some p \<Rightarrow> p
           | None \<Rightarrow>
               if Method r = ''POST'' \<or> Method r = ''PUT'' \<or> Method r = ''PATCH''
               then (case fst (Body_parsePostForm r) of None \<Rightarrow> Mapping.empty | Some p \<Rightarrow> p)
               else Mapping.empty)"
  by (cases "PostForm r"; cases "Form r"; cases "Body_parsePostForm r"; cases "URL_ParseQuery r")
     (simp_all add: ParseForm_def Let_def)

lemma ParseForm_Form:
  "\<exists>f. Form (snd (ParseForm r)) = Some f \<and>
       (\<forall>k. Values_index f k =
          (case Form r of Some f0 \<Rightarrow> Values_index f0 k
           | None \<Rightarrow>
               Values_index (the (PostForm (snd (ParseForm r)))) k
                 @ Values_index (URL_Query r) k))"
  by (cases "PostForm r"; cases "Form r"; cases "Body_parsePostForm r"; cases "URL_ParseQuery r")
     (simp_all add: ParseForm_def Let_def Values_index_copyValues Values_index_empty
      Values_index_is_empty URL_Query_def)

lemma ParseForm_rest:
  "Method (snd (ParseForm r)) = Method r \<and> Header (snd (ParseForm r)) = Header r \<and>
   URL_ParseQuery (snd (ParseForm r)) = URL_ParseQuery r \<and> ctx (snd (ParseForm r)) = ctx r"
  by (cases "PostForm r"; cases "Form r"; cases "Body_parsePostForm r"; cases "URL_ParseQuery r")
     (simp_all add: ParseForm_def Let_def)

section \<open>Lemmas on the locator\<close>

lemma Bearer_range_find: "Bearer_range vs = find (\<lambda>v. v \<noteq> []) vs"
  by (induction vs) simp_all

lemma Bearer_range_nonempty: "Bearer_range vs = Some b \<Longrightarrow> b \<noteq> []"
  by (induction vs) (auto split: if_splits)

lemma Bearer_form_step:
  assumes "Header_Get (Header r) jwtAuthKey = []"
    and "Bearer_range (Values_index (URL_Query r) jwtAuthKey) = None"
  shows "Bearer r =
     (case fst (ParseForm r) of
        Some err \<Rightarrow> (([], False), snd (ParseForm r))
      | None \<Rightarrow>
          if FormValue (snd (ParseForm r)) jwtAuthKey \<noteq> []
          then ((FormValue (snd (ParseForm r)) jwtAuthKey, True),
                snd (ParseForm r)
                  \<lparr>PostForm := map_option (Mapping.delete jwtAuthKey)
                                 (PostForm (snd (ParseForm r)))\<rparr>)
          else (([], False), snd (ParseForm r)))"
  using assms by (cases "ParseForm r") (simp add: Bearer_def Let_def split: option.splits)

lemma first_value_all_empty:
  "\<forall>v\<in>set vs. v = [] \<Longrightarrow> (case vs of [] \<Rightarrow> [] | v # _ \<Rightarrow> v) = []"
  by (cases vs) simp_all

lemma Bearer_not_found:
  assumes H: "\<forall>v\<in>set (Values_index (Header r) jwtAuthKey). v = []"
    and Q: "\<forall>v\<in>set (Values_index (URL_Query r) jwtAuthKey). v = []"
    and B: "\<forall>v\<in>set (Values_index (case fst (Body_parsePostForm r) of None \<Rightarrow> Mapping.empty
                                      | Some p \<Rightarrow> p) jwtAuthKey). v = []"
    and F: "\<forall>f. Form r = Some f \<longrightarrow> (\<forall>v\<in>set (Values_index f jwtAuthKey). v = [])"
    and P: "\<forall>p. PostForm r = Some p \<longrightarrow> (\<forall>v\<in>set (Values_index p jwtAuthKey). v = [])"
  shows "fst (Bearer r) = ([], False)"
proof -
  have h: "Header_Get (Header r) jwtAuthKey = []"
    unfolding Header_Get_def by (rule first_value_all_empty[OF H])
  have q: "Bearer_range (Values_index (URL_Query r) jwtAuthKey) = None"
    using Q by (simp add: Bearer_range_find find_None_iff)
  obtain f where f: "Form (snd (ParseForm r)) = Some f"
    and fk: "Values_index f jwtAuthKey =
          (case Form r of Some f0 \<Rightarrow> Values_index f0 jwtAuthKey
           | None \<Rightarrow>
               Values_index (the (PostForm (snd (ParseForm r)))) jwtAuthKey
                 @ Values_index (URL_Query r) jwtAuthKey)"
    using ParseForm_Form[of r] by blast
  have pf: "\<forall>v\<in>set (Values_index (the (PostForm (snd (ParseForm r)))) jwtAuthKey). v = []"
    using B P by (cases "PostForm r") (simp_all add: ParseForm_PostForm Values_index_empty)
  have "\<forall>v\<in>set (Values_index f jwtAuthKey). v = []"
    using F Q pf unfolding fk by (cases "Form r") auto
  then have "FormValue (snd (ParseForm r)) jwtAuthKey = []"
    unfolding FormValue_def f option.case by (rule first_value_all_empty)
  then show ?thesis
    by (simp add: Bearer_form_step[OF h q] split: option.splits)
qed

text \<open>
  What the form step leaves behind: the token is deleted from \<^verbatim>\<open>r.PostForm\<close> and every other
  key of it is kept, while \<^verbatim>\<open>r.Form\<close>, which \<^verbatim>\<open>FormValue\<close> reads, is not touched at all.
\<close>

lemma Bearer_form_leaves_Form:
  assumes "Header_Get (Header r) jwtAuthKey = []"
    and "find (\<lambda>v. v \<noteq> []) (Values_index (URL_Query r) jwtAuthKey) = None"
    and "Bearer r = ((tok, True), r')"
  shows "Form r' = Form (snd (ParseForm r)) \<and> FormValue r' jwtAuthKey = tok \<and>
         PostFormValue r' jwtAuthKey = [] \<and>
         (\<forall>k. k \<noteq> jwtAuthKey \<longrightarrow> PostFormValue r' k = PostFormValue (snd (ParseForm r)) k)"
proof -
  from assms(2) have q: "Bearer_range (Values_index (URL_Query r) jwtAuthKey) = None"
    by (simp add: Bearer_range_find)
  from assms(3) have
    r': "r' = snd (ParseForm r)
            \<lparr>PostForm := map_option (Mapping.delete jwtAuthKey) (PostForm (snd (ParseForm r)))\<rparr>"
    and tok: "tok = FormValue (snd (ParseForm r)) jwtAuthKey"
    unfolding Bearer_form_step[OF assms(1) q] by (auto split: option.splits if_splits)
  show ?thesis
    unfolding r' tok
    by (simp add: FormValue_def PostFormValue_def ParseForm_PostForm Values_index_delete)
qed

lemma ParseForm_body_error:
  assumes "PostForm r = None"
    and "Method r = ''POST'' \<or> Method r = ''PUT'' \<or> Method r = ''PATCH''"
    and "snd (Body_parsePostForm r) = Some e"
  shows "fst (ParseForm r) = Some e"
  using assms
  by (cases "Form r"; cases "Body_parsePostForm r"; cases "URL_ParseQuery r")
     (simp_all add: ParseForm_def Let_def)

lemma Bearer_ctx: "ctx (snd (Bearer r)) = ctx r"
proof (cases "Header_Get (Header r) jwtAuthKey = []")
  case False
  then show ?thesis by (simp add: Bearer_def)
next
  case h: True
  show ?thesis
  proof (cases "Bearer_range (Values_index (URL_Query r) jwtAuthKey)")
    case (Some b)
    with h show ?thesis by (simp add: Bearer_def)
  next
    case None
    show ?thesis
      unfolding Bearer_form_step[OF h None]
      by (simp add: ParseForm_rest split: option.splits)
  qed
qed

section \<open>Lemmas on the parser\<close>

lemma GetSigningMethod_HMAC_in:
  "alg \<in> set [''HS256'', ''HS384'', ''HS512''] \<Longrightarrow>
   GetSigningMethod alg = Some (SigningMethodHMAC alg)"
  unfolding GetSigningMethod_def by (simp only: if_True)

lemma GetSigningMethod_HMAC_out:
  "alg \<notin> set [''HS256'', ''HS384'', ''HS512''] \<Longrightarrow>
   GetSigningMethod alg \<noteq> Some (SigningMethodHMAC a)"
  unfolding GetSigningMethod_def
  by (simp only: if_False option.inject SigningMethod.distinct option.distinct
      split: if_split, intro conjI impI; simp only: not_False_eq_True)

lemma ParseUnverified_ok:
  assumes "Split_dot tok = [p0, p1, p2]"
    and "DecodeSegment env p0 = Inr hb" and "json_Unmarshal_Header env hb = Inr hdr"
    and "DecodeSegment env p1 = Inr cb" and "json_Decode_Claims env cb claims = Inr c"
    and "hdr ''alg'' = Some (HString alg)" and "GetSigningMethod alg = Some m"
  shows "ParseUnverified env tok claims =
           Inr (\<lparr>Raw = tok, Token_Method = Some m, Token_Header = hdr, Claims = Some c,
                 Signature = [], Valid = False\<rparr>, [p0, p1, p2])"
  using assms by (simp add: ParseUnverified_def)

lemma ParseUnverified_segments:
  "\<nexists>p0 p1 p2. Split_dot tok = [p0, p1, p2] \<Longrightarrow>
   ParseUnverified env tok claims =
     Inl (None, NewValidationError ''token contains an invalid number of segments''
                  ValidationErrorMalformed)"
  by (simp add: ParseUnverified_def split: list.splits)

lemma ParseUnverified_InrD:
  assumes A: "ParseUnverified env tok claims = Inr (token, parts)"
  shows "\<exists>p0 p1 p2 hb hdr cb c alg m.
        Split_dot tok = [p0, p1, p2] \<and> parts = [p0, p1, p2] \<and>
        DecodeSegment env p0 = Inr hb \<and> json_Unmarshal_Header env hb = Inr hdr \<and>
        DecodeSegment env p1 = Inr cb \<and> json_Decode_Claims env cb claims = Inr c \<and>
        hdr ''alg'' = Some (HString alg) \<and> GetSigningMethod alg = Some m \<and>
        token = \<lparr>Raw = tok, Token_Method = Some m, Token_Header = hdr, Claims = Some c,
                 Signature = [], Valid = False\<rparr>"
proof -
  have "\<exists>p0 p1 p2. Split_dot tok = [p0, p1, p2]"
  proof (rule ccontr)
    assume "\<not> ?thesis"
    from ParseUnverified_segments[OF this, of env claims] A show False by simp
  qed
  then obtain p0 p1 p2 where S: "Split_dot tok = [p0, p1, p2]" by blast
  obtain hb where H: "DecodeSegment env p0 = Inr hb"
    using A S by (cases "DecodeSegment env p0") (simp_all add: ParseUnverified_def Let_def split: if_splits)
  obtain hdr where J: "json_Unmarshal_Header env hb = Inr hdr"
    using A S H by (cases "json_Unmarshal_Header env hb") (simp_all add: ParseUnverified_def Let_def)
  obtain cb where D: "DecodeSegment env p1 = Inr cb"
    using A S H J by (cases "DecodeSegment env p1") (simp_all add: ParseUnverified_def Let_def)
  obtain c where C: "json_Decode_Claims env cb claims = Inr c"
    using A S H J D by (cases "json_Decode_Claims env cb claims") (simp_all add: ParseUnverified_def Let_def)
  obtain alg where G: "hdr ''alg'' = Some (HString alg)"
    using A S H J D C
    by (cases "hdr ''alg''") (simp_all add: ParseUnverified_def Let_def split: HeaderVal.splits)
  obtain m where M: "GetSigningMethod alg = Some m"
    using A S H J D C G by (cases "GetSigningMethod alg") (simp_all add: ParseUnverified_def Let_def)
  from ParseUnverified_ok[OF S H J D C G M] A S H J D C G M show ?thesis by simp
qed

lemma keyFunc_HMAC:
  "Token_Method token = Some (SigningMethodHMAC a) \<Longrightarrow> JwtHS256_keyFunc secret token = Inr secret"
  by (simp add: JwtHS256_keyFunc_def)

lemma keyFunc_other:
  "\<forall>a. Token_Method token \<noteq> Some (SigningMethodHMAC a) \<Longrightarrow>
   JwtHS256_keyFunc secret token =
     Inl (PlainError (''unexpected signing method: '' @ fmt_v (Token_Header token ''alg'')))"
  by (simp add: JwtHS256_keyFunc_def split: option.splits SigningMethod.splits)

lemma ParseWithClaims_not_None: "ParseWithClaims env tok claims kf \<noteq> None"
proof (cases "ParseUnverified env tok claims")
  case (Inl a)
  then show ?thesis by (simp add: ParseWithClaims_def split: prod.splits)
next
  case (Inr b)
  obtain token parts where b: "b = (token, parts)" by (cases b)
  from ParseUnverified_InrD[OF Inr[unfolded b]] obtain p0 p1 p2 c m where
    "parts = [p0, p1, p2]" "Claims token = Some c" "Token_Method token = Some m"
    by auto
  then show ?thesis using Inr b
    by (simp add: ParseWithClaims_def Let_def split: sum.splits error.splits)
qed

lemma ParseWithClaims_nil_error:
  assumes "ParseWithClaims env tok claims kf = Some (t, None)"
  shows "\<exists>token. t = Some token \<and> Valid token \<and> Claims token \<noteq> None"
proof (cases "ParseUnverified env tok claims")
  case (Inl a)
  then show ?thesis using assms by (simp add: ParseWithClaims_def split: prod.splits)
next
  case (Inr b)
  obtain token parts where b: "b = (token, parts)" by (cases b)
  from ParseUnverified_InrD[OF Inr[unfolded b]] obtain p0 p1 p2 c m where
    "parts = [p0, p1, p2]" "Claims token = Some c" "Token_Method token = Some m"
    by auto
  then show ?thesis using Inr b assms
    by (auto simp: ParseWithClaims_def Let_def split: sum.splits error.splits if_splits)
qed

section \<open>Lemmas on the middleware\<close>

lemma ParseWithClaims_HMAC:
  assumes "Split_dot tok = [p0, p1, p2]"
    and "DecodeSegment env p0 = Inr hb" and "json_Unmarshal_Header env hb = Inr hdr"
    and "DecodeSegment env p1 = Inr cb" and "json_Decode_Claims env cb claims = Inr c"
    and "hdr ''alg'' = Some (HString alg)"
    and "alg \<in> set [''HS256'', ''HS384'', ''HS512'']"
  shows "ParseWithClaims env tok claims (JwtHS256_keyFunc secret) =
     (let vErr0 =
        (case Claims_Valid env c of
           None \<Rightarrow> \<lparr>Inner = None, Errors = 0, text' = []\<rparr>
         | Some (ValidationErr e) \<Rightarrow> e
         | Some (PlainError m) \<Rightarrow>
             \<lparr>Inner = Some m, Errors = ValidationErrorClaimsInvalid, text' = []\<rparr>);
          vErr =
            (case Method_Verify env (SigningMethodHMAC alg) (p0 @ ''.'' @ p1) p2 secret of
               Some m \<Rightarrow> vErr0\<lparr>Inner := Some m,
                               Errors := Errors vErr0 OR ValidationErrorSignatureInvalid\<rparr>
             | None \<Rightarrow> vErr0);
          token = \<lparr>Raw = tok, Token_Method = Some (SigningMethodHMAC alg), Token_Header = hdr,
                   Claims = Some c, Signature = p2, Valid = False\<rparr>
      in if Errors vErr = 0 then Some (Some (token\<lparr>Valid := True\<rparr>), None)
         else Some (Some token, Some vErr))"
proof -
  note M = GetSigningMethod_HMAC_in[OF assms(7)]
  note PU = ParseUnverified_ok[OF assms(1-6) M]
  show ?thesis
    by (simp add: ParseWithClaims_def PU keyFunc_HMAC Let_def ValidationError_valid_def)
qed

lemma ParseWithClaims_non_HMAC:
  assumes "Split_dot tok = [p0, p1, p2]"
    and "DecodeSegment env p0 = Inr hb" and "json_Unmarshal_Header env hb = Inr hdr"
    and "hdr ''alg'' = Some (HString alg)"
    and "alg \<notin> set [''HS256'', ''HS384'', ''HS512'']"
  shows "\<exists>t e. ParseWithClaims env tok claims (JwtHS256_keyFunc secret) = Some (t, Some e)"
proof (cases "ParseUnverified env tok claims")
  case (Inl a)
  then show ?thesis by (simp add: ParseWithClaims_def split: prod.splits)
next
  case (Inr b)
  obtain token parts where b: "b = (token, parts)" by (cases b)
  from ParseUnverified_InrD[OF Inr[unfolded b]] assms(1-4) obtain m where
    M: "GetSigningMethod alg = Some m" "Token_Method token = Some m"
    by auto
  from M(1) GetSigningMethod_HMAC_out[OF assms(5)] have "\<forall>a. m \<noteq> SigningMethodHMAC a"
    by metis
  with M(2) have "\<forall>a. Token_Method token \<noteq> Some (SigningMethodHMAC a)" by simp
  from keyFunc_other[OF this] show ?thesis using Inr b
    by (simp add: ParseWithClaims_def)
qed

lemma JwtHS256_located:
  "Bearer r = ((tok, True), r1) \<Longrightarrow>
   JwtHS256 env secret cf r =
     (case ParseWithClaims env tok (cf ()) (JwtHS256_keyFunc secret) of
        None \<Rightarrow> (panic, r1)
      | Some (token, Some err) \<Rightarrow> (http_Error (ValidationError_Error err) StatusForbidden, r1)
      | Some (None, None) \<Rightarrow> (panic, r1)
      | Some (Some token, None) \<Rightarrow>
          if \<not> Valid token then (http_Error ''token is invalid'' StatusForbidden, r1)
          else (next_ServeHTTP
                  (r1\<lparr>ctx := WithValue (ctx r1) claimsKey
                                (case Claims token of None \<Rightarrow> NilVal | Some c \<Rightarrow> ClaimsVal c)\<rparr>),
                r1))"
  by (simp add: JwtHS256_def)

lemma JwtHS256_no_panic: "fst (JwtHS256 env secret cf r) \<noteq> panic"
proof -
  obtain tok ok r1 where B: "Bearer r = ((tok, ok), r1)" by (metis prod.collapse)
  show ?thesis
  proof (cases ok)
    case False
    with B show ?thesis by (simp add: JwtHS256_def)
  next
    case True
    obtain t e where P: "ParseWithClaims env tok (cf ()) (JwtHS256_keyFunc secret) = Some (t, e)"
      using ParseWithClaims_not_None[of env tok "cf ()" "JwtHS256_keyFunc secret"] by fastforce
    show ?thesis
    proof (cases e)
      case None
      from ParseWithClaims_nil_error[OF P[unfolded None]] obtain token where
        "t = Some token" "Valid token" by blast
      with B True P None show ?thesis by (simp add: JwtHS256_located)
    next
      case (Some err)
      with B True P show ?thesis by (simp add: JwtHS256_located split: option.splits)
    qed
  qed
qed

lemma ParseWithClaims_segments:
  "\<nexists>p0 p1 p2. Split_dot tok = [p0, p1, p2] \<Longrightarrow>
   ParseWithClaims env tok claims kf =
     Some (None, Some (NewValidationError ''token contains an invalid number of segments''
                         ValidationErrorMalformed))"
  by (simp add: ParseWithClaims_def ParseUnverified_segments)

lemma ParseWithClaims_claims_decode_error:
  assumes "Split_dot tok = [p0, p1, p2]"
    and "DecodeSegment env p0 = Inr hb" and "json_Unmarshal_Header env hb = Inr hdr"
    and "DecodeSegment env p1 = Inr cb" and "json_Decode_Claims env cb claims = Inl m"
  shows "\<exists>t e. ParseWithClaims env tok claims kf = Some (t, Some e) \<and> ValidationError_Error e = m"
  using assms
  by (simp add: ParseWithClaims_def ParseUnverified_def Let_def ValidationError_Error_def)

lemma SignatureInvalid_flag: "x OR ValidationErrorSignatureInvalid \<noteq> 0"
  by (simp add: ValidationErrorSignatureInvalid_def or_eq_0_iff)

lemma ParseWithClaims_bad_signature:
  assumes "Split_dot tok = [p0, p1, p2]"
    and "DecodeSegment env p0 = Inr hb" and "json_Unmarshal_Header env hb = Inr hdr"
    and "DecodeSegment env p1 = Inr cb" and "json_Decode_Claims env cb claims = Inr c"
    and "hdr ''alg'' = Some (HString alg)"
    and "alg \<in> set [''HS256'', ''HS384'', ''HS512'']"
    and "Method_Verify env (SigningMethodHMAC alg) (p0 @ ''.'' @ p1) p2 secret = Some m"
  shows "\<exists>t e. ParseWithClaims env tok claims (JwtHS256_keyFunc secret) = Some (t, Some e) \<and>
               ValidationError_Error e = m"
  using assms(8)
  by (simp add: ParseWithClaims_HMAC[OF assms(1-7)] SignatureInvalid_flag Let_def
      ValidationError_Error_def)

lemma JwtHS256_token_is_invalid_branch_dead:
  "fst (JwtHS256 env secret cf r) = http_Error ''token is invalid'' 403 \<Longrightarrow>
   \<exists>tok t err. fst (Bearer r) = (tok, True) \<and>
     ParseWithClaims env tok (cf ()) (JwtHS256_keyFunc secret) = Some (t, Some err) \<and>
     ValidationError_Error err = ''token is invalid''"
proof -
  assume A: "fst (JwtHS256 env secret cf r) = http_Error ''token is invalid'' 403"
  obtain tok ok r1 where B: "Bearer r = ((tok, ok), r1)" by (metis prod.collapse)
  have ok: ok using A B by (cases ok) (simp_all add: JwtHS256_def StatusUnauthorized_def)
  obtain t e where P: "ParseWithClaims env tok (cf ()) (JwtHS256_keyFunc secret) = Some (t, e)"
    using ParseWithClaims_not_None[of env tok "cf ()" "JwtHS256_keyFunc secret"] by fastforce
  show ?thesis
  proof (cases e)
    case None
    from ParseWithClaims_nil_error[OF P[unfolded None]] obtain token where
      "t = Some token" "Valid token" by blast
    with A B ok P None show ?thesis by (simp add: JwtHS256_located)
  next
    case (Some err)
    with A B ok P show ?thesis by (simp add: JwtHS256_located split: option.splits)
  qed
qed

text \<open>
  How the handler answers when the claims' own \<^verbatim>\<open>Valid()\<close> returns an error on a token that
  decodes and verifies. The parser reports the failure as an error of its own, so the check
  of lines 43 to 46 answers with that error's message. The one error the parser lets pass is
  a \<^verbatim>\<open>ValidationError\<close> with no flag set: \<^verbatim>\<open>vErr.valid()\<close> holds for it, and the request goes on
  to the next handler.
\<close>

lemma JwtHS256_Valid_error_answer:
  assumes "Bearer r = ((tok, True), r1)"
    and "Split_dot tok = [p0, p1, p2]"
    and "DecodeSegment env p0 = Inr hb" and "json_Unmarshal_Header env hb = Inr hdr"
    and "DecodeSegment env p1 = Inr cb" and "json_Decode_Claims env cb (cf ()) = Inr c"
    and "hdr ''alg'' = Some (HString alg)"
    and "alg \<in> set [''HS256'', ''HS384'', ''HS512'']"
    and "Method_Verify env (SigningMethodHMAC alg) (p0 @ ''.'' @ p1) p2 secret = None"
    and "Claims_Valid env c = Some e"
    and "\<forall>ve. e = ValidationErr ve \<longrightarrow> Errors ve \<noteq> 0"
  shows "JwtHS256 env secret cf r = (http_Error (error_Error e) 403, r1)"
proof (cases e)
  case (ValidationErr ve)
  with assms(11) have "Errors ve \<noteq> 0" by simp
  with assms(1,9,10) ValidationErr show ?thesis
    by (simp add: JwtHS256_located ParseWithClaims_HMAC[OF assms(2-8)] StatusForbidden_def)
next
  case (PlainError m)
  have "ValidationErrorClaimsInvalid \<noteq> 0" by (simp add: ValidationErrorClaimsInvalid_def)
  with assms(1,9,10) PlainError show ?thesis
    by (simp add: JwtHS256_located ParseWithClaims_HMAC[OF assms(2-8)] StatusForbidden_def
        ValidationError_Error_def)
qed

lemma JwtHS256_flagless_Valid_error:
  assumes "Bearer r = ((tok, True), r1)"
    and "Split_dot tok = [p0, p1, p2]"
    and "DecodeSegment env p0 = Inr hb" and "json_Unmarshal_Header env hb = Inr hdr"
    and "DecodeSegment env p1 = Inr cb" and "json_Decode_Claims env cb (cf ()) = Inr c"
    and "hdr ''alg'' = Some (HString alg)"
    and "alg \<in> set [''HS256'', ''HS384'', ''HS512'']"
    and "Method_Verify env (SigningMethodHMAC alg) (p0 @ ''.'' @ p1) p2 secret = None"
    and "Claims_Valid env c = Some (ValidationErr ve)"
    and "Errors ve = 0"
  shows "JwtHS256 env secret cf r =
           (next_ServeHTTP (r1\<lparr>ctx := WithValue (ctx r1) claimsKey (ClaimsVal c)\<rparr>), r1)"
  using assms(1,9,10,11)
  by (simp add: JwtHS256_located ParseWithClaims_HMAC[OF assms(2-8)])

section \<open>The claims\<close>

subsection \<open>The locator\<close>

text \<open>
  Claim C5. The locator selects by fixed precedence. A non-empty \<^verbatim>\<open>r.Header.Get\<close> value is
  returned and the request is left as it was; otherwise the first non-empty value among the
  repeated query parameters is returned, again with the request untouched; the form is parsed
  only when both gave nothing, and then the answer is the form value if parsing reported no
  error and the value is non-empty, and not-found otherwise.
\<close>

theorem Bearer_precedence:
  "(Header_Get (Header r) jwtAuthKey \<noteq> [] \<longrightarrow>
      Bearer r = ((Header_Get (Header r) jwtAuthKey, True), r)) \<and>
   (Header_Get (Header r) jwtAuthKey = [] \<longrightarrow>
      (\<forall>b. find (\<lambda>v. v \<noteq> []) (Values_index (URL_Query r) jwtAuthKey) = Some b \<longrightarrow>
           Bearer r = ((b, True), r))) \<and>
   (Header_Get (Header r) jwtAuthKey = [] \<and>
    find (\<lambda>v. v \<noteq> []) (Values_index (URL_Query r) jwtAuthKey) = None \<longrightarrow>
      fst (Bearer r) =
        (if fst (ParseForm r) = None \<and> FormValue (snd (ParseForm r)) jwtAuthKey \<noteq> []
         then (FormValue (snd (ParseForm r)) jwtAuthKey, True) else ([], False)))"
proof (intro conjI impI allI)
  assume "Header_Get (Header r) jwtAuthKey \<noteq> []"
  then show "Bearer r = ((Header_Get (Header r) jwtAuthKey, True), r)"
    by (simp add: Bearer_def)
next
  fix b
  assume "Header_Get (Header r) jwtAuthKey = []"
    and "find (\<lambda>v. v \<noteq> []) (Values_index (URL_Query r) jwtAuthKey) = Some b"
  then show "Bearer r = ((b, True), r)"
    by (simp add: Bearer_def Bearer_range_find)
next
  assume "Header_Get (Header r) jwtAuthKey = [] \<and>
    find (\<lambda>v. v \<noteq> []) (Values_index (URL_Query r) jwtAuthKey) = None"
  then have h: "Header_Get (Header r) jwtAuthKey = []"
    and q: "Bearer_range (Values_index (URL_Query r) jwtAuthKey) = None"
    by (simp_all add: Bearer_range_find)
  show "fst (Bearer r) =
        (if fst (ParseForm r) = None \<and> FormValue (snd (ParseForm r)) jwtAuthKey \<noteq> []
         then (FormValue (snd (ParseForm r)) jwtAuthKey, True) else ([], False))"
    by (simp add: Bearer_form_step[OF h q] split: option.splits)
qed

theorem Bearer_precedence_witness:
  "Header_Get (Header ex_all_request) jwtAuthKey = ''in.the.header'' \<and>
   Values_index (URL_Query ex_all_request) jwtAuthKey = [''in.the.query''] \<and>
   Bearer ex_all_request = ((''in.the.header'', True), ex_all_request) \<and>
   Header_Get (Header (ex_query_request [[], ''first'', ''second''])) jwtAuthKey = [] \<and>
   Bearer (ex_query_request [[], ''first'', ''second'']) =
     ((''first'', True), ex_query_request [[], ''first'', ''second'']) \<and>
   fst (Bearer (ex_form_request ''a.b.c'')) = (''a.b.c'', True)"
proof -
  have h1: "Header_Get (Header ex_all_request) jwtAuthKey = ''in.the.header''"
    by code_simp
  have q1: "Values_index (URL_Query ex_all_request) jwtAuthKey = [''in.the.query'']"
    by code_simp
  have h2: "Header_Get (Header (ex_query_request [[], ''first'', ''second''])) jwtAuthKey = []"
    by code_simp
  have q2: "find (\<lambda>v. v \<noteq> [])
              (Values_index (URL_Query (ex_query_request [[], ''first'', ''second''])) jwtAuthKey)
            = Some ''first''"
    by code_simp
  have h3: "Header_Get (Header (ex_form_request ''a.b.c'')) jwtAuthKey = []"
    by code_simp
  have q3: "find (\<lambda>v. v \<noteq> []) (Values_index (URL_Query (ex_form_request ''a.b.c'')) jwtAuthKey)
            = None"
    by code_simp
  have f3: "fst (ParseForm (ex_form_request ''a.b.c'')) = None"
    by code_simp
  have v3: "FormValue (snd (ParseForm (ex_form_request ''a.b.c''))) jwtAuthKey = ''a.b.c''"
    by code_simp
  from Bearer_precedence[of ex_all_request] h1
  have 1: "Bearer ex_all_request = ((''in.the.header'', True), ex_all_request)" by simp
  from Bearer_precedence[of "ex_query_request [[], ''first'', ''second'']"] h2 q2
  have 2: "Bearer (ex_query_request [[], ''first'', ''second'']) =
     ((''first'', True), ex_query_request [[], ''first'', ''second''])" by simp
  from Bearer_precedence[of "ex_form_request ''a.b.c''"] h3 q3 f3 v3
  have 3: "fst (Bearer (ex_form_request ''a.b.c'')) = (''a.b.c'', True)" by simp
  from 1 2 3 h1 q1 h2 show ?thesis by simp
qed

text \<open>
  Claim C8. When header and query give no non-empty value and \<^verbatim>\<open>r.ParseForm()\<close> returns an
  error, the locator answers not-found, with an empty token: the error itself is dropped.
  \<open>ParseForm_body_error\<close> shows that a body that fails to parse makes \<^verbatim>\<open>ParseForm\<close> return
  its error; the run below has the token in such a body.
\<close>

theorem Bearer_ParseForm_error:
  assumes "Header_Get (Header r) jwtAuthKey = []"
    and "find (\<lambda>v. v \<noteq> []) (Values_index (URL_Query r) jwtAuthKey) = None"
    and "fst (ParseForm r) = Some e"
  shows "fst (Bearer r) = ([], False)"
proof -
  from assms(2) have q: "Bearer_range (Values_index (URL_Query r) jwtAuthKey) = None"
    by (simp add: Bearer_range_find)
  show ?thesis by (simp add: Bearer_form_step[OF assms(1) q] assms(3))
qed

theorem Bearer_ParseForm_error_witness:
  "Header_Get (Header ex_bad_body_request) jwtAuthKey = [] \<and>
   find (\<lambda>v. v \<noteq> []) (Values_index (URL_Query ex_bad_body_request) jwtAuthKey) = None \<and>
   Body_parsePostForm ex_bad_body_request =
     (Some (Mapping.of_alist [(jwtAuthKey, [''in.the.form''])]),
      Some ''invalid semicolon separator in query'') \<and>
   fst (ParseForm ex_bad_body_request) = Some ''invalid semicolon separator in query'' \<and>
   fst (Bearer ex_bad_body_request) = ([], False)"
proof -
  have h: "Header_Get (Header ex_bad_body_request) jwtAuthKey = []"
    by code_simp
  have q: "find (\<lambda>v. v \<noteq> []) (Values_index (URL_Query ex_bad_body_request) jwtAuthKey) = None"
    by code_simp
  have b: "Body_parsePostForm ex_bad_body_request =
     (Some (Mapping.of_alist [(jwtAuthKey, [''in.the.form''])]),
      Some ''invalid semicolon separator in query'')"
    by (simp add: ex_bad_body_request_def ex_request_def)
  have e: "fst (ParseForm ex_bad_body_request) = Some ''invalid semicolon separator in query''"
    by code_simp
  from Bearer_ParseForm_error[OF h q e] h q b e show ?thesis by simp
qed

text \<open>
  Claim C10. Whenever the locator reports found, the token is non-empty.
\<close>

theorem Bearer_found_nonempty: "Bearer r = ((tok, True), r') \<Longrightarrow> tok \<noteq> []"
proof -
  assume A: "Bearer r = ((tok, True), r')"
  show ?thesis
  proof (cases "Header_Get (Header r) jwtAuthKey = []")
    case False
    with A show ?thesis by (auto simp: Bearer_def)
  next
    case h: True
    show ?thesis
    proof (cases "Bearer_range (Values_index (URL_Query r) jwtAuthKey)")
      case (Some b)
      with A h have "tok = b" by (simp add: Bearer_def)
      with Bearer_range_nonempty[OF Some] show ?thesis by simp
    next
      case None
      from A show ?thesis unfolding Bearer_form_step[OF h None]
        by (auto split: option.splits if_splits)
    qed
  qed
qed

theorem Bearer_found_nonempty_witness:
  "fst (Bearer (ex_form_request ''a.b.c'')) = (''a.b.c'', True) \<and> ''a.b.c'' \<noteq> []"
proof -
  have b: "fst (Bearer (ex_form_request ''a.b.c'')) = (''a.b.c'', True)"
    by code_simp
  then have "Bearer (ex_form_request ''a.b.c'') =
               ((''a.b.c'', True), snd (Bearer (ex_form_request ''a.b.c'')))"
    by (metis prod.collapse)
  from Bearer_found_nonempty[OF this] b show ?thesis by simp
qed

text \<open>
  Claim C4, evaluated on a POST request whose urlencoded body carries
  \<^verbatim>\<open>Authorization=a.b.c\<close> and \<^verbatim>\<open>page=2\<close>, with no header and no query. The token is found in
  the form and deleted from \<^verbatim>\<open>r.PostForm\<close>, and \<^verbatim>\<open>page\<close> is kept in both maps; but \<^verbatim>\<open>r.Form\<close>
  still holds the token, and \<^verbatim>\<open>r.FormValue("Authorization")\<close> still returns it to a downstream
  handler. \<open>Bearer_form_leaves_Form\<close> states the same for every request.
\<close>

theorem Bearer_form_token_stays_in_Form:
  "fst (Bearer (ex_form_request ''a.b.c'')) = (''a.b.c'', True) \<and>
   FormValue (snd (Bearer (ex_form_request ''a.b.c''))) jwtAuthKey = ''a.b.c'' \<and>
   Values_index (the (Form (snd (Bearer (ex_form_request ''a.b.c''))))) jwtAuthKey = [''a.b.c''] \<and>
   PostFormValue (snd (Bearer (ex_form_request ''a.b.c''))) jwtAuthKey = [] \<and>
   FormValue (snd (Bearer (ex_form_request ''a.b.c''))) ''page'' = ''2'' \<and>
   PostFormValue (snd (Bearer (ex_form_request ''a.b.c''))) ''page'' = ''2''"
  by code_simp

subsection \<open>The authentication middleware JwtHS256\<close>

text \<open>
  Claim C3. If every \<^verbatim>\<open>Authorization\<close> value of the header, of the query and of the form body
  is empty (and, on a request whose form an earlier handler has parsed already, every such
  value of \<^verbatim>\<open>r.Form\<close> and \<^verbatim>\<open>r.PostForm\<close>), the gate replies 401 with the message
  \<^verbatim>\<open>no JSON web token in request\<close>. The outcome is the call of \<^verbatim>\<open>http.Error\<close>, so the next
  handler is not called.
\<close>

theorem JwtHS256_no_token:
  assumes "\<forall>v\<in>set (Values_index (Header r) jwtAuthKey). v = []"
    and "\<forall>v\<in>set (Values_index (URL_Query r) jwtAuthKey). v = []"
    and "\<forall>v\<in>set (Values_index (case fst (Body_parsePostForm r) of None \<Rightarrow> Mapping.empty
                                   | Some p \<Rightarrow> p) jwtAuthKey). v = []"
    and "\<forall>f. Form r = Some f \<longrightarrow> (\<forall>v\<in>set (Values_index f jwtAuthKey). v = [])"
    and "\<forall>p. PostForm r = Some p \<longrightarrow> (\<forall>v\<in>set (Values_index p jwtAuthKey). v = [])"
  shows "fst (JwtHS256 env secret cf r) = http_Error ''no JSON web token in request'' 401"
proof -
  from Bearer_not_found[OF assms] obtain r1 where "Bearer r = (([], False), r1)"
    by (metis prod.collapse)
  then show ?thesis by (simp add: JwtHS256_def StatusUnauthorized_def)
qed

theorem JwtHS256_no_token_witness:
  "Values_index (Header (ex_query_request [[], []])) jwtAuthKey = [] \<and>
   Values_index (URL_Query (ex_query_request [[], []])) jwtAuthKey = [[], []] \<and>
   Form (ex_query_request [[], []]) = None \<and> PostForm (ex_query_request [[], []]) = None \<and>
   fst (JwtHS256 ex_env ''secret'' ex_cf (ex_query_request [[], []])) =
     http_Error ''no JSON web token in request'' 401"
proof -
  have h: "\<forall>v\<in>set (Values_index (Header (ex_query_request [[], []])) jwtAuthKey). v = []"
    by code_simp
  have q: "\<forall>v\<in>set (Values_index (URL_Query (ex_query_request [[], []])) jwtAuthKey). v = []"
    by code_simp
  have q': "Values_index (URL_Query (ex_query_request [[], []])) jwtAuthKey = [[], []]"
    by code_simp
  have b: "\<forall>v\<in>set (Values_index (case fst (Body_parsePostForm (ex_query_request [[], []])) of
                                    None \<Rightarrow> Mapping.empty | Some p \<Rightarrow> p) jwtAuthKey). v = []"
    by code_simp
  have f: "\<forall>f. Form (ex_query_request [[], []]) = Some f \<longrightarrow>
               (\<forall>v\<in>set (Values_index f jwtAuthKey). v = [])"
    by (simp add: ex_query_request_def ex_request_def)
  have p: "\<forall>p. PostForm (ex_query_request [[], []]) = Some p \<longrightarrow>
               (\<forall>v\<in>set (Values_index p jwtAuthKey). v = [])"
    by (simp add: ex_query_request_def ex_request_def)
  have h': "Values_index (Header (ex_query_request [[], []])) jwtAuthKey = []"
    by code_simp
  have n: "Form (ex_query_request [[], []]) = None \<and> PostForm (ex_query_request [[], []]) = None"
    by (simp add: ex_query_request_def ex_request_def)
  from JwtHS256_no_token[OF h q b f p, of ex_env "''secret''" ex_cf] h' q' n
  show ?thesis by blast
qed

text \<open>
  Claim C1. A located token with three segments whose decoded header declares an algorithm
  other than HS256, HS384 and HS512 is answered with 403, whatever its signature segment
  \<open>p2\<close> is and whatever \<open>Method_Verify\<close> would say: the key function refuses every method that
  is not of the HMAC type, and an unregistered name has no method at all.
\<close>

theorem JwtHS256_rejects_non_HMAC:
  assumes "Bearer r = ((tok, True), r1)"
    and "Split_dot tok = [p0, p1, p2]"
    and "DecodeSegment env p0 = Inr hb" and "json_Unmarshal_Header env hb = Inr hdr"
    and "hdr ''alg'' = Some (HString alg)"
    and "alg \<notin> set [''HS256'', ''HS384'', ''HS512'']"
  shows "\<exists>msg. JwtHS256 env secret cf r = (http_Error msg 403, r1)"
proof -
  from ParseWithClaims_non_HMAC[OF assms(2-6), of "cf ()" secret] obtain t e where
    "ParseWithClaims env tok (cf ()) (JwtHS256_keyFunc secret) = Some (t, Some e)" by blast
  with assms(1) show ?thesis
    by (simp add: JwtHS256_located StatusForbidden_def split: option.splits)
qed

theorem JwtHS256_rejects_non_HMAC_witness:
  "Bearer (ex_header_request ''RS256.alice.secret'') =
     ((''RS256.alice.secret'', True), ex_header_request ''RS256.alice.secret'') \<and>
   Split_dot ''RS256.alice.secret'' = [''RS256'', ''alice'', ''secret''] \<and>
   ''RS256'' \<notin> set [''HS256'', ''HS384'', ''HS512''] \<and>
   (\<exists>msg. JwtHS256 ex_env ''secret'' ex_cf (ex_header_request ''RS256.alice.secret'') =
            (http_Error msg 403, ex_header_request ''RS256.alice.secret'')) \<and>
   fst (JwtHS256 ex_env ''secret'' ex_cf (ex_header_request ''none.alice.secret'')) =
     http_Error ''unexpected signing method: none'' 403"
proof -
  have b: "Bearer (ex_header_request ''RS256.alice.secret'') =
     ((''RS256.alice.secret'', True), ex_header_request ''RS256.alice.secret'')"
    by code_simp
  have s: "Split_dot ''RS256.alice.secret'' = [''RS256'', ''alice'', ''secret'']"
    by code_simp
  have d: "DecodeSegment ex_env ''RS256'' = Inr ''RS256''"
    by (simp add: ex_env_def)
  have j: "json_Unmarshal_Header ex_env ''RS256'' = Inr [''alg'' \<mapsto> HString ''RS256'']"
    by (simp add: ex_env_def)
  have a: "[''alg'' \<mapsto> HString ''RS256''] ''alg'' = Some (HString ''RS256'')"
    by simp
  have n: "''RS256'' \<notin> set [''HS256'', ''HS384'', ''HS512'']"
    by simp
  have e: "fst (JwtHS256 ex_env ''secret'' ex_cf (ex_header_request ''none.alice.secret'')) =
     http_Error ''unexpected signing method: none'' 403"
    by code_simp
  from JwtHS256_rejects_non_HMAC[where secret = "''secret''" and cf = ex_cf, OF b s d j a n] b s n e
  show ?thesis by blast
qed

text \<open>
  Claim C2. A located token that decodes, declares an HMAC algorithm, verifies under the
  gate's secret and whose claims pass \<^verbatim>\<open>Valid()\<close> reaches the next handler: the request passed
  on carries the context extended with the decoded claims under \<^verbatim>\<open>claimsKey{}\<close>, and
  \<open>GetClaimsFromContext\<close> on that context returns them. (\<open>Bearer_ctx\<close>: the locator leaves the
  context of the request as it was.)
\<close>

theorem JwtHS256_valid_token:
  assumes "Bearer r = ((tok, True), r1)"
    and "Split_dot tok = [p0, p1, p2]"
    and "DecodeSegment env p0 = Inr hb" and "json_Unmarshal_Header env hb = Inr hdr"
    and "DecodeSegment env p1 = Inr cb" and "json_Decode_Claims env cb (cf ()) = Inr c"
    and "hdr ''alg'' = Some (HString alg)"
    and "alg \<in> set [''HS256'', ''HS384'', ''HS512'']"
    and "Method_Verify env (SigningMethodHMAC alg) (p0 @ ''.'' @ p1) p2 secret = None"
    and "Claims_Valid env c = None"
  shows "JwtHS256 env secret cf r =
           (next_ServeHTTP (r1\<lparr>ctx := WithValue (ctx r) claimsKey (ClaimsVal c)\<rparr>), r1) \<and>
         GetClaimsFromContext (WithValue (ctx r) claimsKey (ClaimsVal c)) = Some c"
proof -
  from assms(1) Bearer_ctx[of r] have "ctx r1 = ctx r"
    by simp
  with assms(1,9,10) show ?thesis
    by (simp add: JwtHS256_located ParseWithClaims_HMAC[OF assms(2-8)] GetClaimsFromContext_def)
qed

theorem JwtHS256_valid_token_witness:
  "Bearer (ex_header_request ''HS256.alice.secret'') =
     ((''HS256.alice.secret'', True), ex_header_request ''HS256.alice.secret'') \<and>
   Split_dot ''HS256.alice.secret'' = [''HS256'', ''alice'', ''secret''] \<and>
   Method_Verify ex_env (SigningMethodHMAC ''HS256'') (''HS256'' @ ''.'' @ ''alice'') ''secret''
     ''secret'' = None \<and>
   Claims_Valid ex_env ''alice'' = None \<and>
   JwtHS256 ex_env ''secret'' ex_cf (ex_header_request ''HS256.alice.secret'') =
     (next_ServeHTTP
        (ex_header_request ''HS256.alice.secret''
           \<lparr>ctx := WithValue Background claimsKey (ClaimsVal ''alice'')\<rparr>),
      ex_header_request ''HS256.alice.secret'') \<and>
   GetClaimsFromContext (WithValue Background claimsKey (ClaimsVal ''alice'')) = Some ''alice''"
proof -
  have b: "Bearer (ex_header_request ''HS256.alice.secret'') =
     ((''HS256.alice.secret'', True), ex_header_request ''HS256.alice.secret'')"
    by code_simp
  have s: "Split_dot ''HS256.alice.secret'' = [''HS256'', ''alice'', ''secret'']"
    by code_simp
  have d0: "DecodeSegment ex_env ''HS256'' = Inr ''HS256''"
    by (simp add: ex_env_def)
  have j: "json_Unmarshal_Header ex_env ''HS256'' = Inr [''alg'' \<mapsto> HString ''HS256'']"
    by (simp add: ex_env_def)
  have d1: "DecodeSegment ex_env ''alice'' = Inr ''alice''"
    by (simp add: ex_env_def)
  have c: "json_Decode_Claims ex_env ''alice'' (ex_cf ()) = Inr ''alice''"
    by (simp add: ex_env_def)
  have a: "[''alg'' \<mapsto> HString ''HS256''] ''alg'' = Some (HString ''HS256'')"
    by simp
  have n: "''HS256'' \<in> set [''HS256'', ''HS384'', ''HS512'']"
    by simp
  have v: "Method_Verify ex_env (SigningMethodHMAC ''HS256'') (''HS256'' @ ''.'' @ ''alice'')
             ''secret'' ''secret'' = None"
    by (simp add: ex_env_def)
  have k: "Claims_Valid ex_env ''alice'' = None"
    by (simp add: ex_env_def)
  have x: "ctx (ex_header_request ''HS256.alice.secret'') = Background"
    by (simp add: ex_header_request_def ex_request_def)
  from JwtHS256_valid_token[where cf = ex_cf and hdr = "[''alg'' \<mapsto> HString ''HS256'']", OF b s d0 j d1 c a n v k] b s v k x
  show ?thesis by simp
qed

text \<open>
  Claim C6. Whenever the parser returns an error for the located token, for whichever reason,
  the gate replies 403 with that error's message and does not call the next handler. The
  lemmas \<open>ParseWithClaims_segments\<close>, \<open>ParseWithClaims_claims_decode_error\<close>,
  \<open>ParseWithClaims_non_HMAC\<close> and \<open>ParseWithClaims_bad_signature\<close> show that a wrong segment
  count, a payload that does not decode, an algorithm outside HMAC and a signature mismatch
  each make it return one.
\<close>

theorem JwtHS256_parse_error:
  assumes "Bearer r = ((tok, True), r1)"
    and "ParseWithClaims env tok (cf ()) (JwtHS256_keyFunc secret) = Some (t, Some err)"
  shows "JwtHS256 env secret cf r = (http_Error (ValidationError_Error err) 403, r1)"
  using assms by (simp add: JwtHS256_located StatusForbidden_def split: option.splits)

theorem JwtHS256_parse_error_witness:
  "Bearer (ex_header_request ''HS256.alice.wrong'') =
     ((''HS256.alice.wrong'', True), ex_header_request ''HS256.alice.wrong'') \<and>
   JwtHS256 ex_env ''secret'' ex_cf (ex_header_request ''HS256.alice.wrong'') =
     (http_Error ''signature is invalid'' 403, ex_header_request ''HS256.alice.wrong'') \<and>
   fst (JwtHS256 ex_env ''secret'' ex_cf (ex_header_request ''alice.wrong'')) =
     http_Error ''token contains an invalid number of segments'' 403"
proof -
  have b: "Bearer (ex_header_request ''HS256.alice.wrong'') =
     ((''HS256.alice.wrong'', True), ex_header_request ''HS256.alice.wrong'')"
    by code_simp
  have s: "Split_dot ''HS256.alice.wrong'' = [''HS256'', ''alice'', ''wrong'']"
    by code_simp
  have d0: "DecodeSegment ex_env ''HS256'' = Inr ''HS256''"
    by (simp add: ex_env_def)
  have j: "json_Unmarshal_Header ex_env ''HS256'' = Inr [''alg'' \<mapsto> HString ''HS256'']"
    by (simp add: ex_env_def)
  have d1: "DecodeSegment ex_env ''alice'' = Inr ''alice''"
    by (simp add: ex_env_def)
  have c: "json_Decode_Claims ex_env ''alice'' (ex_cf ()) = Inr ''alice''"
    by (simp add: ex_env_def)
  have a: "[''alg'' \<mapsto> HString ''HS256''] ''alg'' = Some (HString ''HS256'')"
    by simp
  have n: "''HS256'' \<in> set [''HS256'', ''HS384'', ''HS512'']"
    by simp
  have v: "Method_Verify ex_env (SigningMethodHMAC ''HS256'') (''HS256'' @ ''.'' @ ''alice'')
             ''wrong'' ''secret'' = Some ''signature is invalid''"
    by (simp add: ex_env_def)
  from ParseWithClaims_bad_signature[OF s d0 j d1 c a n v] obtain t e where
    p: "ParseWithClaims ex_env ''HS256.alice.wrong'' (ex_cf ()) (JwtHS256_keyFunc ''secret'') =
          Some (t, Some e)"
    and m: "ValidationError_Error e = ''signature is invalid''"
    by blast
  have g: "fst (JwtHS256 ex_env ''secret'' ex_cf (ex_header_request ''alice.wrong'')) =
     http_Error ''token contains an invalid number of segments'' 403"
    by code_simp
  from JwtHS256_parse_error[where cf = ex_cf, OF b p] m b g show ?thesis by simp
qed

text \<open>
  Claim C7, evaluated on a request whose header carries a token that decodes, declares HS256
  and verifies under the secret, with claims whose \<^verbatim>\<open>Valid()\<close> reports them expired. The
  claim, and the comment \<^verbatim>\<open>// token validation error\<close> on lines 47 to 51 of the source, give
  this case the fixed body \<^verbatim>\<open>token is invalid\<close>. The handler answers 403 with the message of
  the claims' error instead: the parser returns a failed \<^verbatim>\<open>Valid()\<close> as an error, so lines 43
  to 46 answer, and the branch of lines 47 to 51 is never taken after a nil error
  (\<open>ParseWithClaims_nil_error\<close>, \<open>JwtHS256_token_is_invalid_branch_dead\<close>).
\<close>

theorem JwtHS256_expired_token_answer:
  "Bearer (ex_header_request ''HS256.expired.secret'') =
     ((''HS256.expired.secret'', True), ex_header_request ''HS256.expired.secret'') \<and>
   Split_dot ''HS256.expired.secret'' = [''HS256'', ''expired'', ''secret''] \<and>
   Method_Verify ex_env (SigningMethodHMAC ''HS256'') (''HS256'' @ ''.'' @ ''expired'') ''secret''
     ''secret'' = None \<and>
   Claims_Valid ex_env ''expired'' \<noteq> None \<and>
   fst (JwtHS256 ex_env ''secret'' ex_cf (ex_header_request ''HS256.expired.secret'')) =
     http_Error ''token is expired by 1h0m0s'' 403 \<and>
   fst (JwtHS256 ex_env ''secret'' ex_cf (ex_header_request ''HS256.expired.secret'')) \<noteq>
     http_Error ''token is invalid'' 403"
  by code_simp

subsection \<open>The context accessor\<close>

text \<open>
  Claim C9. On a context that holds no claims under \<^verbatim>\<open>claimsKey{}\<close> (nothing stored there, or
  a value that is not a \<^verbatim>\<open>Claims\<close>), \<open>GetClaimsFromContext\<close> returns the zero value, nil. It
  is a total function with no error result.
\<close>

theorem GetClaimsFromContext_not_gated:
  assumes "\<forall>claims. Value c claimsKey \<noteq> Some (ClaimsVal claims)"
  shows "GetClaimsFromContext c = None"
  using assms by (simp add: GetClaimsFromContext_def split: option.splits Any.splits)

theorem GetClaimsFromContext_not_gated_witness:
  "GetClaimsFromContext (Background :: string Context) = None \<and>
   GetClaimsFromContext (WithValue Background (OtherKey ''user'') (OtherVal ''bob'')
                           :: string Context) = None \<and>
   GetClaimsFromContext (WithValue Background claimsKey (OtherVal ''bob'') :: string Context)
     = None"
proof -
  have 1: "\<forall>claims. Value (Background :: string Context) claimsKey \<noteq> Some (ClaimsVal claims)"
    by simp
  have 2: "\<forall>claims. Value (WithValue Background (OtherKey ''user'') (OtherVal ''bob'')
                              :: string Context) claimsKey \<noteq> Some (ClaimsVal claims)"
    by simp
  have 3: "\<forall>claims. Value (WithValue Background claimsKey (OtherVal ''bob'') :: string Context)
                       claimsKey \<noteq> Some (ClaimsVal claims)"
    by simp
  from GetClaimsFromContext_not_gated[OF 1] GetClaimsFromContext_not_gated[OF 2]
    GetClaimsFromContext_not_gated[OF 3]
  show ?thesis by simp
qed

end
